theory Spec2Isabelle
  imports Complex_Main
begin

section \<open>JavaScript values\<close>

text \<open>
  A JavaScript number is NaN, an infinity or a finite value. Every finite double is a
  rational and \<open><\<close> on doubles is \<open><\<close> on the rationals they denote, so finite numbers
  are modelled by \<open>rat\<close>. Every comparison with NaN is false.
\<close>

datatype jsnum = NaN | NegInf | Fin rat | PosInf

fun js_lt :: "jsnum \<Rightarrow> jsnum \<Rightarrow> bool" where
  "js_lt NaN b = False"
| "js_lt a NaN = False"
| "js_lt NegInf NegInf = False"
| "js_lt NegInf b = True"
| "js_lt (Fin x) NegInf = False"
| "js_lt (Fin x) (Fin y) = (x < y)"
| "js_lt (Fin x) PosInf = True"
| "js_lt PosInf b = False"

text \<open>The primitive values a form record or a field definition holds.\<close>

datatype jsval = JUndefined | JNull | JBool bool | JNum jsnum | JStr string

text \<open>Truthiness, as used by \<open>if (x)\<close>, \<open>x ? a : b\<close> and \<open>x || y\<close>.\<close>

fun num_truthy :: "jsnum \<Rightarrow> bool" where
  "num_truthy NaN = False"
| "num_truthy (Fin x) = (x \<noteq> 0)"
| "num_truthy NegInf = True"
| "num_truthy PosInf = True"

fun truthy :: "jsval \<Rightarrow> bool" where
  "truthy JUndefined = False"
| "truthy JNull = False"
| "truthy (JBool b) = b"
| "truthy (JNum n) = num_truthy n"
| "truthy (JStr s) = (s \<noteq> [])"

text \<open>
  A record is a JavaScript object, given by what reading each of its properties yields;
  a property that is not there reads as \<open>undefined\<close>.
\<close>

type_synonym jsrecord = "string \<Rightarrow> jsval"

section \<open>The zod schemas that \<open>generateZodSchema\<close> builds\<close>

text \<open>
  The part of zod 3 that the source uses: \<open>z.string()\<close> with \<open>.email(msg)\<close> and
  \<open>.min(n, msg)\<close>, \<open>z.number({required_error, invalid_type_error})\<close> with \<open>.min(v, msg)\<close>
  and \<open>.max(v, msg)\<close>, \<open>.refine(pred, {message})\<close>, \<open>.optional()\<close> and \<open>z.object(shape)\<close>.
\<close>

datatype str_check = CheckEmail string | CheckMinLen jsnum string

datatype num_check = CheckGte jsnum string | CheckLte jsnum string

datatype zschema =
    ZodString "str_check list"
  | ZodNumber string string "num_check list"
  | ZodEffects zschema "jsval \<Rightarrow> bool" string
  | ZodOptional zschema

text \<open>
  Four primitives come from the JavaScript engine and from the zod library and are taken
  as parameters: the conversion of a number to a string (template literals), zod's
  e-mail pattern, \<open>!isNaN(new Date(val).getTime())\<close>, and which property names a zod
  schema object inherits as accessors without a setter (\<open>description\<close> is one): an
  assignment of such a name to an object that inherits from the schema creates no
  property and throws a \<open>TypeError\<close>, the module being strict code.
\<close>

record platform =
  num_to_string :: "jsnum \<Rightarrow> string"
  email_ok :: "string \<Rightarrow> bool"
  date_ok :: "string \<Rightarrow> bool"
  inherited_readonly :: "zschema \<Rightarrow> string \<Rightarrow> bool"

definition z_string :: zschema where
  "z_string = ZodString []"

fun zs_email :: "string \<Rightarrow> zschema \<Rightarrow> zschema" where
  "zs_email msg (ZodString cs) = ZodString (cs @ [CheckEmail msg])"
| "zs_email msg sch = sch"

fun zs_min :: "jsnum \<Rightarrow> string \<Rightarrow> zschema \<Rightarrow> zschema" where
  "zs_min n msg (ZodString cs) = ZodString (cs @ [CheckMinLen n msg])"
| "zs_min n msg sch = sch"

definition z_number :: "string \<Rightarrow> string \<Rightarrow> zschema" where
  "z_number required_error invalid_type_error = ZodNumber required_error invalid_type_error []"

fun zn_min :: "jsnum \<Rightarrow> string \<Rightarrow> zschema \<Rightarrow> zschema" where
  "zn_min v msg (ZodNumber r i cs) = ZodNumber r i (cs @ [CheckGte v msg])"
| "zn_min v msg sch = sch"

fun zn_max :: "jsnum \<Rightarrow> string \<Rightarrow> zschema \<Rightarrow> zschema" where
  "zn_max v msg (ZodNumber r i cs) = ZodNumber r i (cs @ [CheckLte v msg])"
| "zn_max v msg sch = sch"

definition refine :: "(jsval \<Rightarrow> bool) \<Rightarrow> string \<Rightarrow> zschema \<Rightarrow> zschema" where
  "refine check msg sch = ZodEffects sch check msg"

definition optional :: "zschema \<Rightarrow> zschema" where
  "optional sch = ZodOptional sch"

text \<open>zod's \<open>getParsedType\<close>, which names the received type in the default message.\<close>

fun parsedType :: "jsval \<Rightarrow> string" where
  "parsedType JUndefined = ''undefined''"
| "parsedType JNull = ''null''"
| "parsedType (JBool b) = ''boolean''"
| "parsedType (JNum n) = (if n = NaN then ''nan'' else ''number'')"
| "parsedType (JStr s) = ''string''"

text \<open>One check of a string or of a number: the issues it adds (none or one message).\<close>

fun str_check_issues :: "platform \<Rightarrow> string \<Rightarrow> str_check \<Rightarrow> string list" where
  "str_check_issues P s (CheckEmail msg) = (if email_ok P s then [] else [msg])"
| "str_check_issues P s (CheckMinLen n msg) =
     (if js_lt (Fin (of_nat (length s))) n then [msg] else [])"

fun num_check_issues :: "jsnum \<Rightarrow> num_check \<Rightarrow> string list" where
  "num_check_issues x (CheckGte v msg) = (if js_lt x v then [msg] else [])"
| "num_check_issues x (CheckLte v msg) = (if js_lt v x then [msg] else [])"

text \<open>
  Parsing a value: the messages of the issues raised, in order, and whether the parse
  was aborted (a value of the wrong type aborts, a failed check does not). A refinement
  runs only when the inner parse was not aborted; \<open>optional\<close> accepts \<open>undefined\<close>
  without parsing it and hands every other value, the empty string too, to the inner
  schema.
\<close>

fun parse :: "platform \<Rightarrow> zschema \<Rightarrow> jsval \<Rightarrow> bool \<times> string list" where
  "parse P (ZodString cs) v =
     (case v of
        JStr s \<Rightarrow> (False, concat (map (str_check_issues P s) cs))
      | JUndefined \<Rightarrow> (True, [''Required''])
      | _ \<Rightarrow> (True, [''Expected string, received '' @ parsedType v]))"
| "parse P (ZodNumber required_error invalid_type_error cs) v =
     (case v of
        JNum n \<Rightarrow>
          (if n = NaN then (True, [invalid_type_error])
           else (False, concat (map (num_check_issues n) cs)))
      | JUndefined \<Rightarrow> (True, [required_error])
      | _ \<Rightarrow> (True, [invalid_type_error]))"
| "parse P (ZodEffects sch check msg) v =
     (case parse P sch v of
        (True, issues) \<Rightarrow> (True, issues)
      | (False, issues) \<Rightarrow> (False, issues @ (if check v then [] else [msg])))"
| "parse P (ZodOptional sch) v =
     (if v = JUndefined then (False, []) else parse P sch v)"

text \<open>The message shown for a field is the one of its first issue.\<close>

definition field_error :: "platform \<Rightarrow> zschema \<Rightarrow> jsval \<Rightarrow> string option" where
  "field_error P sch v = (case snd (parse P sch v) of [] \<Rightarrow> None | msg # _ \<Rightarrow> Some msg)"

text \<open>
  \<open>z.object(shape)\<close> behind \<open>zodResolver\<close>: every key of the shape is parsed against the
  record's property of that name; the result maps the fields in error to their messages
  and is empty when the record is accepted.
\<close>

definition validate :: "platform \<Rightarrow> (string \<rightharpoonup> zschema) \<Rightarrow> jsrecord \<Rightarrow> (string \<rightharpoonup> string)" where
  "validate P shape data =
     (\<lambda>k. case shape k of None \<Rightarrow> None | Some sch \<Rightarrow> field_error P sch (data k))"

section \<open>Field definitions and \<open>generateZodSchema\<close>\<close>

record field_def =
  field_id :: nat
  name :: string
  label :: string
  field_type :: string
  required :: bool
  field_min :: jsval
  field_max :: jsval
  minLength :: "jsnum option"

text \<open>\<open>field.minLength || 10\<close>; an absent \<open>minLength\<close> is \<open>None\<close>.\<close>

fun or_default :: "jsnum option \<Rightarrow> jsnum \<Rightarrow> jsnum" where
  "or_default None d = d"
| "or_default (Some n) d = (if num_truthy n then n else d)"

text \<open>The refinement of the date types: \<open>val => !isNaN(new Date(val).getTime())\<close>.\<close>

fun date_check :: "platform \<Rightarrow> jsval \<Rightarrow> bool" where
  "date_check P (JStr s) = date_ok P s"
| "date_check P v = False"

text \<open>The \<open>switch (field.type)\<close> of \<open>generateZodSchema\<close>.\<close>

definition number_schema :: "platform \<Rightarrow> field_def \<Rightarrow> zschema" where
  "number_schema P f =
     (let s0 = z_number (label f @ '' is required'') (label f @ '' must be a number'');
          s1 = (case field_min f of
                  JNum m \<Rightarrow> zn_min m (label f @ '' must be at least '' @ num_to_string P m) s0
                | _ \<Rightarrow> s0);
          s2 = (case field_max f of
                  JNum m \<Rightarrow> zn_max m (label f @ '' must be at most '' @ num_to_string P m) s1
                | _ \<Rightarrow> s1)
      in s2)"

definition fieldSchema :: "platform \<Rightarrow> field_def \<Rightarrow> zschema" where
  "fieldSchema P f =
     (if field_type f = ''email'' then
        zs_email (label f @ '' must be a valid email'') z_string
      else if field_type f = ''number'' then
        number_schema P f
      else if field_type f = ''date'' \<or> field_type f = ''datetime-local'' then
        refine (date_check P) (label f @ '' must be a valid date'') z_string
      else if field_type f = ''tel'' then
        zs_min (or_default (minLength f) (Fin 10))
          (label f @ '' must be at least ''
             @ num_to_string P (or_default (minLength f) (Fin 10)) @ '' characters'')
          z_string
      else
        (case minLength f of
           None \<Rightarrow> z_string
         | Some n \<Rightarrow>
             if num_truthy n then
               zs_min n (label f @ '' must be at least '' @ num_to_string P n @ '' characters'')
                 z_string
             else z_string))"

text \<open>\<open>field.required ? fieldSchema : fieldSchema.optional()\<close>.\<close>

definition fieldEntry :: "platform \<Rightarrow> field_def \<Rightarrow> zschema" where
  "fieldEntry P f = (if required f then fieldSchema P f else optional (fieldSchema P f))"

text \<open>
  \<open>schemaObject\<close> is a plain object: its own properties and its prototype, \<open>None\<close> for
  \<open>Object.prototype\<close>, which \<open>{}\<close> starts with. The order of the keys is not
  represented: a field's message does not depend on it.
\<close>

record js_object =
  proto :: "zschema option"
  props :: "string \<rightharpoonup> zschema"

definition empty_object :: js_object where
  "empty_object = \<lparr>proto = None, props = Map.empty\<rparr>"

datatype js_exception = TypeError

text \<open>
  The assignment \<open>schemaObject[k] = v\<close>. The name \<open>__proto__\<close> is the accessor of
  \<open>Object.prototype\<close>: assigning a schema to it replaces the prototype and creates no
  own property. Any other name sets the own property when there is one; when there is
  none the prototype chain decides: the accessors of a schema that has become the
  prototype throw, every other name becomes an own property.
\<close>

definition assign :: "platform \<Rightarrow> string \<Rightarrow> zschema \<Rightarrow> js_object \<Rightarrow> js_exception + js_object" where
  "assign P k v obj =
     (if k = ''__proto__'' then Inr (obj\<lparr>proto := Some v\<rparr>)
      else if props obj k \<noteq> None then Inr (obj\<lparr>props := (props obj)(k \<mapsto> v)\<rparr>)
      else
        (case proto obj of
           None \<Rightarrow> Inr (obj\<lparr>props := (props obj)(k \<mapsto> v)\<rparr>)
         | Some p \<Rightarrow>
             if inherited_readonly P p k then Inl TypeError
             else Inr (obj\<lparr>props := (props obj)(k \<mapsto> v)\<rparr>)))"

text \<open>\<open>fields.forEach(field => { ...; schemaObject[field.name] = ... })\<close>.\<close>

fun forEach_field :: "platform \<Rightarrow> field_def list \<Rightarrow> js_object \<Rightarrow> js_exception + js_object" where
  "forEach_field P [] schemaObject = Inr schemaObject"
| "forEach_field P (f # fs) schemaObject =
     (case assign P (name f) (fieldEntry P f) schemaObject of
        Inl e \<Rightarrow> Inl e
      | Inr obj \<Rightarrow> forEach_field P fs obj)"

text \<open>
  \<open>generateZodSchema(fields)\<close>: the shape of \<open>z.object(schemaObject)\<close> is the own
  properties of \<open>schemaObject\<close>.
\<close>

definition generateZodSchema :: "platform \<Rightarrow> field_def list \<Rightarrow> js_exception + (string \<rightharpoonup> zschema)" where
  "generateZodSchema P fs =
     (case forEach_field P fs empty_object of
        Inl e \<Rightarrow> Inl e
      | Inr schemaObject \<Rightarrow> Inr (props schemaObject))"

text \<open>\<open>errors[field.name]?.message\<close> after validating a record against the compiled fields.\<close>

definition violation :: "platform \<Rightarrow> field_def list \<Rightarrow> jsrecord \<Rightarrow> string \<Rightarrow> js_exception + string option" where
  "violation P fs data k =
     (case generateZodSchema P fs of
        Inl e \<Rightarrow> Inl e
      | Inr shape \<Rightarrow> Inr (validate P shape data k))"

section \<open>The form component: state, loading the fields, submitting\<close>

text \<open>
  The \<open>useState\<close> cells of \<open>BookingForm\<close>; \<open>null\<close> is \<open>None\<close>. The spec's phases are
  read off these cells: the session is confirmed when \<open>bookingId\<close> is set and failed
  when \<open>error\<close> is set.
\<close>

record state =
  bookingId :: "string option"
  formFields :: "field_def list"
  isLoading :: bool
  error :: "string option"
  isSubmitting :: bool
  emailStatus :: "string option"

definition initial_state :: state where
  "initial_state =
     \<lparr>bookingId = None, formFields = [], isLoading = True, error = None,
      isSubmitting = False, emailStatus = None\<rparr>"

text \<open>
  A promise settles with a value or with a thrown error object, of which the component
  reads \<open>message\<close> only (\<open>None\<close> when the object has none).
\<close>

datatype js_error = JsError (message: "string option")

datatype 'a outcome = Resolved 'a | Rejected js_error

text \<open>What \<open>getFormFields\<close> resolves with: \<open>null\<close>, or a settings object that may lack \<open>fields\<close>.\<close>

datatype settings = Settings (fields: "field_def list option")

definition default_fields :: "field_def list" where
  "default_fields =
     [\<lparr>field_id = 1, name = ''fullName'', label = ''Full Name'', field_type = ''text'',
        required = True, field_min = JUndefined, field_max = JUndefined,
        minLength = Some (Fin 2)\<rparr>,
      \<lparr>field_id = 2, name = ''email'', label = ''Email'', field_type = ''email'',
        required = True, field_min = JUndefined, field_max = JUndefined,
        minLength = None\<rparr>,
      \<lparr>field_id = 3, name = ''date'', label = ''Date & Time'', field_type = ''datetime-local'',
        required = True, field_min = JUndefined, field_max = JUndefined,
        minLength = None\<rparr>]"

text \<open>
  \<open>loadFormFields\<close>, given how \<open>getFormFields()\<close> settled: \<open>settings?.fields\<close> is taken when
  it is there (an array is truthy, the empty one too), the default list otherwise; a
  rejection sets the error; \<open>finally\<close> clears \<open>isLoading\<close>.
\<close>

definition loadFormFields :: "settings option outcome \<Rightarrow> state \<Rightarrow> state" where
  "loadFormFields r s =
     (case r of
        Resolved st \<Rightarrow>
          (case (case st of None \<Rightarrow> None | Some x \<Rightarrow> fields x) of
             Some fs \<Rightarrow> s\<lparr>formFields := fs, isLoading := False\<rparr>
           | None \<Rightarrow> s\<lparr>formFields := default_fields, isLoading := False\<rparr>)
      | Rejected err \<Rightarrow>
          s\<lparr>error := Some ''Failed to load form. Please try again later.'',
            isLoading := False\<rparr>)"

text \<open>
  The two collaborators of \<open>onSubmit\<close>, as the way their promises settle, and the calls
  made to them, in order.
\<close>

record collaborators =
  createBooking :: "jsrecord \<Rightarrow> string outcome"
  sendBookingEmail :: "jsrecord \<Rightarrow> string \<Rightarrow> unit outcome"

datatype call = CreateBooking jsrecord | SendBookingEmail jsrecord string

text \<open>\<open>error.message || 'Failed to create booking. Please try again.'\<close>.\<close>

fun message_or :: "js_error \<Rightarrow> string \<Rightarrow> string" where
  "message_or (JsError None) d = d"
| "message_or (JsError (Some m)) d = (if m \<noteq> [] then m else d)"

text \<open>The statements of \<open>onSubmit\<close> before its first \<open>await\<close>.\<close>

definition onSubmit_begin :: "state \<Rightarrow> state" where
  "onSubmit_begin s = s\<lparr>error := None, isSubmitting := True, emailStatus := None\<rparr>"

text \<open>
  \<open>onSubmit(data)\<close> run to its end from state \<open>s\<close>: the state it leaves and the calls it
  made. Logging to the console is left out.
\<close>

definition onSubmit :: "collaborators \<Rightarrow> jsrecord \<Rightarrow> state \<Rightarrow> state \<times> call list" where
  "onSubmit W data s =
     (let s1 = onSubmit_begin s in
      case createBooking W data of
        Rejected err \<Rightarrow>
          (s1\<lparr>error := Some (message_or err ''Failed to create booking. Please try again.''),
              isSubmitting := False\<rparr>,
           [CreateBooking data])
      | Resolved bid \<Rightarrow>
          if truthy (data ''email'') then
            (case sendBookingEmail W data bid of
               Resolved u \<Rightarrow>
                 (s1\<lparr>emailStatus := Some ''Confirmation email sent!'',
                     bookingId := Some bid, isSubmitting := False\<rparr>,
                  [CreateBooking data, SendBookingEmail data bid])
             | Rejected emailError \<Rightarrow>
                 (s1\<lparr>emailStatus := Some ''Booking confirmed but email delivery failed.'',
                     bookingId := Some bid, isSubmitting := False\<rparr>,
                  [CreateBooking data, SendBookingEmail data bid]))
          else
            (s1\<lparr>bookingId := Some bid, isSubmitting := False\<rparr>, [CreateBooking data]))"

text \<open>The submit button: \<open>disabled={isSubmitting}\<close>.\<close>

definition submit_disabled :: "state \<Rightarrow> bool" where
  "submit_disabled s = isSubmitting s"

text \<open>
  A platform instance to run the model on concrete inputs. It agrees with a JavaScript
  engine and with zod on the values the examples below use: the numbers 2, 5 and 10 print
  in decimal, the empty string is neither an e-mail address nor a date, a schema has
  the accessor \<open>description\<close>.
\<close>

definition example_platform :: platform where
  "example_platform =
     \<lparr>num_to_string =
        (\<lambda>n. if n = Fin 2 then ''2'' else if n = Fin 5 then ''5''
             else if n = Fin 10 then ''10'' else ''NaN''),
      email_ok = (\<lambda>s. s = ''ada@example.org''),
      date_ok = (\<lambda>s. s = ''2025-03-14'' \<or> s = ''2025-03-14T19:30''),
      inherited_readonly = (\<lambda>sch k. k = ''description'')\<rparr>"

text \<open>Field definitions for the examples.\<close>

definition phone_field :: field_def where
  "phone_field =
     \<lparr>field_id = 4, name = ''phone'', label = ''Phone'', field_type = ''tel'',
      required = False, field_min = JUndefined, field_max = JUndefined, minLength = None\<rparr>"

definition notes_field :: field_def where
  "notes_field =
     \<lparr>field_id = 5, name = ''notes'', label = ''Notes'', field_type = ''text'',
      required = True, field_min = JUndefined, field_max = JUndefined, minLength = None\<rparr>"

definition guests_field :: field_def where
  "guests_field =
     \<lparr>field_id = 6, name = ''guests'', label = ''Guests'', field_type = ''number'',
      required = True, field_min = JNum (Fin 5), field_max = JNum (Fin 10),
      minLength = None\<rparr>"

definition when_field :: field_def where
  "when_field =
     \<lparr>field_id = 7, name = ''when'', label = ''When'', field_type = ''datetime'',
      required = True, field_min = JUndefined, field_max = JUndefined, minLength = None\<rparr>"

definition proto_field :: field_def where
  "proto_field =
     \<lparr>field_id = 8, name = ''__proto__'', label = ''Prototype'', field_type = ''text'',
      required = True, field_min = JUndefined, field_max = JUndefined, minLength = None\<rparr>"

definition example_record :: jsrecord where
  "example_record =
     (\<lambda>k. if k = ''fullName'' then JStr ''Ada Lovelace''
          else if k = ''email'' then JStr ''ada@example.org''
          else if k = ''date'' then JStr ''2025-03-14T19:30''
          else JUndefined)"

definition failing_notifier :: collaborators where
  "failing_notifier =
     \<lparr>createBooking = (\<lambda>data. Resolved ''B123''),
      sendBookingEmail = (\<lambda>data bid. Rejected (JsError (Some ''SMTP timeout'')))\<rparr>"

definition failing_store :: collaborators where
  "failing_store =
     \<lparr>createBooking = (\<lambda>data. Rejected (JsError (Some ''permission-denied''))),
      sendBookingEmail = (\<lambda>data bid. Resolved ())\<rparr>"

definition silent_store :: collaborators where
  "silent_store =
     \<lparr>createBooking = (\<lambda>data. Rejected (JsError None)),
      sendBookingEmail = (\<lambda>data bid. Resolved ())\<rparr>"

definition ready_state :: state where
  "ready_state = loadFormFields (Resolved None) initial_state"

section \<open>The compiled schema as a map from names to rules\<close>

text \<open>
  Compilation returns for every list that has no field named \<open>__proto__\<close>. When it
  returns, the keys of the shape are the names of the fields other than \<open>__proto__\<close>;
  with unique names the rule stored under such a name is that field's, and the message
  reported for the field is the first issue of that rule on the record's value.
\<close>

lemma assign_props:
  "assign P k v obj = Inr obj' \<Longrightarrow>
   props obj' = (if k = ''__proto__'' then props obj else (props obj)(k \<mapsto> v))"
  by (auto simp: assign_def split: if_splits option.splits)

lemma assign_plain:
  "k \<noteq> ''__proto__'' \<Longrightarrow> proto obj = None \<Longrightarrow>
   assign P k v obj = Inr (obj\<lparr>props := (props obj)(k \<mapsto> v)\<rparr>)"
  by (simp add: assign_def)

lemma forEach_field_returns:
  "''__proto__'' \<notin> set (map name fs) \<Longrightarrow> proto obj = None \<Longrightarrow>
   \<exists>obj'. forEach_field P fs obj = Inr obj'"
proof (induction fs arbitrary: obj)
  case Nil
  then show ?case by simp
next
  case (Cons g gs)
  from Cons.prems have g: "name g \<noteq> ''__proto__''" and gs: "''__proto__'' \<notin> set (map name gs)"
    by auto
  have "proto (obj\<lparr>props := (props obj)(name g \<mapsto> fieldEntry P g)\<rparr>) = None"
    using Cons.prems(2) by simp
  from Cons.IH [OF gs this] show ?case
    using g Cons.prems(2) by (simp add: assign_plain)
qed

lemma forEach_field_keys:
  "forEach_field P fs obj = Inr obj' \<Longrightarrow>
   dom (props obj') = dom (props obj) \<union> (set (map name fs) - {''__proto__''})"
proof (induction fs arbitrary: obj)
  case Nil
  then show ?case by simp
next
  case (Cons g gs)
  from Cons.prems obtain mid where a: "assign P (name g) (fieldEntry P g) obj = Inr mid"
    and r: "forEach_field P gs mid = Inr obj'"
    by (auto split: sum.splits)
  from Cons.IH [OF r] assign_props [OF a] show ?case
    by (auto split: if_splits)
qed

lemma forEach_field_other:
  "forEach_field P fs obj = Inr obj' \<Longrightarrow> k \<notin> set (map name fs) \<Longrightarrow>
   props obj' k = props obj k"
proof (induction fs arbitrary: obj)
  case Nil
  then show ?case by simp
next
  case (Cons g gs)
  from Cons.prems obtain mid where a: "assign P (name g) (fieldEntry P g) obj = Inr mid"
    and r: "forEach_field P gs mid = Inr obj'"
    by (auto split: sum.splits)
  from Cons.prems(2) have k: "k \<noteq> name g" "k \<notin> set (map name gs)" by auto
  from Cons.IH [OF r k(2)] assign_props [OF a] k(1) show ?case
    by (simp split: if_splits)
qed

lemma forEach_field_lookup:
  "forEach_field P fs obj = Inr obj' \<Longrightarrow> distinct (map name fs) \<Longrightarrow> f \<in> set fs \<Longrightarrow>
   name f \<noteq> ''__proto__'' \<Longrightarrow> props obj' (name f) = Some (fieldEntry P f)"
proof (induction fs arbitrary: obj)
  case Nil
  then show ?case by simp
next
  case (Cons g gs)
  from Cons.prems(1) obtain mid where a: "assign P (name g) (fieldEntry P g) obj = Inr mid"
    and r: "forEach_field P gs mid = Inr obj'"
    by (auto split: sum.splits)
  show ?case
  proof (cases "f = g")
    case True
    with Cons.prems(2) have "name f \<notin> set (map name gs)" by simp
    from forEach_field_other [OF r this] assign_props [OF a] True Cons.prems(4)
    show ?thesis by simp
  next
    case False
    with Cons.prems have "f \<in> set gs" and "distinct (map name gs)" by auto
    with Cons.IH [OF r] Cons.prems(4) show ?thesis by simp
  qed
qed

lemma not_thrown: "(r \<noteq> Inl TypeError) = (\<exists>x. r = Inr x)"
proof (cases r)
  case (Inl e)
  then show ?thesis by (cases e) simp
next
  case (Inr x)
  then show ?thesis by simp
qed

lemma generateZodSchema_returns:
  "''__proto__'' \<notin> set (map name fs) \<Longrightarrow> generateZodSchema P fs \<noteq> Inl TypeError"
  using forEach_field_returns [of fs empty_object P]
  by (auto simp: generateZodSchema_def empty_object_def)

lemma generateZodSchema_keys:
  "generateZodSchema P fs = Inr shape \<Longrightarrow> dom shape = set (map name fs) - {''__proto__''}"
  using forEach_field_keys [of P fs empty_object]
  by (auto simp: generateZodSchema_def empty_object_def split: sum.splits)

lemma generateZodSchema_lookup:
  "generateZodSchema P fs = Inr shape \<Longrightarrow> distinct (map name fs) \<Longrightarrow> f \<in> set fs \<Longrightarrow>
   name f \<noteq> ''__proto__'' \<Longrightarrow> shape (name f) = Some (fieldEntry P f)"
  using forEach_field_lookup [of P fs empty_object _ f]
  by (auto simp: generateZodSchema_def split: sum.splits)

lemma violation_field:
  assumes "generateZodSchema P fs \<noteq> Inl TypeError"
    and "distinct (map name fs)" and "f \<in> set fs" and "name f \<noteq> ''__proto__''"
  shows "violation P fs data (name f)
           = Inr (field_error P (fieldEntry P f) (data (name f)))"
proof -
  from assms(1) obtain shape where s: "generateZodSchema P fs = Inr shape"
    by (auto simp: not_thrown)
  from generateZodSchema_lookup [OF s assms(2,3,4)] s show ?thesis
    by (simp add: violation_def validate_def)
qed

section \<open>The rules of the field types\<close>

lemma tel_rule:
  "field_type f = ''tel'' \<Longrightarrow>
   field_error P (fieldEntry P f) (JStr s) =
     (if js_lt (Fin (of_nat (length s))) (or_default (minLength f) (Fin 10))
      then Some (label f @ '' must be at least ''
                   @ num_to_string P (or_default (minLength f) (Fin 10)) @ '' characters'')
      else None)"
  by (simp add: fieldEntry_def fieldSchema_def optional_def z_string_def field_error_def)

text \<open>
  C9, as the claim states it, fails on the code: the list of the one field named
  \<open>__proto__\<close> has unique names and compiles to a validator with no key at all.
\<close>

theorem proto_name_counterexample:
  "distinct (map name [proto_field])
   \<and> set (map name [proto_field]) = {''__proto__''}
   \<and> generateZodSchema example_platform [proto_field] = Inr Map.empty"
  by (simp add: generateZodSchema_def assign_def empty_object_def proto_field_def)

text \<open>
  C9, amended: for every field list in which no field is named \<open>__proto__\<close> (with unique
  names or not), compilation returns a validator whose key set is the set of the
  fields' names; whenever compilation returns, the key set is the set of the names
  other than \<open>__proto__\<close>. The empty list compiles to the validator with no key, which
  reports no violation on any record.
\<close>

theorem generateZodSchema_key_set:
  "(''__proto__'' \<notin> set (map name fs) \<longrightarrow>
      (\<exists>shape. generateZodSchema P fs = Inr shape \<and> dom shape = set (map name fs)))
   \<and> (generateZodSchema P fs = Inr shape' \<longrightarrow>
        dom shape' = set (map name fs) - {''__proto__''})
   \<and> generateZodSchema P [] = Inr Map.empty
   \<and> validate P Map.empty data = Map.empty"
proof (intro conjI impI)
  assume no: "''__proto__'' \<notin> set (map name fs)"
  then obtain shape where s: "generateZodSchema P fs = Inr shape"
    using generateZodSchema_returns [of fs P] by (auto simp: not_thrown)
  from generateZodSchema_keys [OF s] no have "dom shape = set (map name fs)" by simp
  with s show "\<exists>shape. generateZodSchema P fs = Inr shape \<and> dom shape = set (map name fs)"
    by blast
next
  assume "generateZodSchema P fs = Inr shape'"
  then show "dom shape' = set (map name fs) - {''__proto__''}"
    by (rule generateZodSchema_keys)
next
  show "generateZodSchema P [] = Inr Map.empty"
    by (simp add: generateZodSchema_def empty_object_def)
next
  show "validate P Map.empty data = Map.empty"
    by (simp add: validate_def)
qed

theorem generateZodSchema_key_set_witness:
  "''__proto__'' \<notin> set (map name default_fields)
   \<and> map_sum id dom (generateZodSchema example_platform default_fields)
       = Inr {''fullName'', ''email'', ''date''}"
proof -
  have no: "''__proto__'' \<notin> set (map name default_fields)"
    by (simp add: default_fields_def)
  with generateZodSchema_key_set [of default_fields example_platform]
  obtain shape where "generateZodSchema example_platform default_fields = Inr shape"
    and "dom shape = set (map name default_fields)"
    by blast
  then have "map_sum id dom (generateZodSchema example_platform default_fields)
      = Inr {''fullName'', ''email'', ''date''}"
    by (auto simp: default_fields_def)
  with no show ?thesis by simp
qed

text \<open>
  C8: a \<open>tel\<close> field with no \<open>minLength\<close>, compiled under its name in a list with unique
  names, enforces a minimum length of 10 on a string value: a string of fewer than 10
  characters (so one of 5) is rejected with the field's message, a string of 10 or more
  characters is accepted.
\<close>

theorem tel_default_min_length:
  assumes "generateZodSchema P fs \<noteq> Inl TypeError"
    and "distinct (map name fs)" and "f \<in> set fs" and "name f \<noteq> ''__proto__''"
    and "field_type f = ''tel''" and "minLength f = None"
    and "data (name f) = JStr s"
  shows "violation P fs data (name f) =
           Inr (if length s < 10
                then Some (label f @ '' must be at least '' @ num_to_string P (Fin 10)
                             @ '' characters'')
                else None)"
proof -
  have "violation P fs data (name f) = Inr (field_error P (fieldEntry P f) (JStr s))"
    using violation_field [OF assms(1,2,3,4)] assms(7) by simp
  also have "field_error P (fieldEntry P f) (JStr s) =
           (if length s < 10
            then Some (label f @ '' must be at least '' @ num_to_string P (Fin 10)
                         @ '' characters'')
            else None)"
    using assms(5,6) by (simp add: tel_rule)
  finally show ?thesis .
qed

theorem tel_default_min_length_witness:
  "violation example_platform [phone_field] (\<lambda>k. JStr ''12345'') ''phone''
     = Inr (Some ''Phone must be at least 10 characters'')
   \<and> violation example_platform [phone_field] (\<lambda>k. JStr ''0123456789'') ''phone''
     = Inr None"
  using tel_default_min_length [where fs = "[phone_field]" and f = phone_field
      and data = "\<lambda>k. JStr ''12345''" and s = "''12345''" and P = example_platform]
    tel_default_min_length [where fs = "[phone_field]" and f = phone_field
      and data = "\<lambda>k. JStr ''0123456789''" and s = "''0123456789''" and P = example_platform]
  by (simp add: generateZodSchema_def assign_def empty_object_def phone_field_def
      example_platform_def)

lemma text_rule:
  "field_type f \<notin> {''email'', ''number'', ''date'', ''datetime-local'', ''tel''} \<Longrightarrow>
   field_error P (fieldEntry P f) (JStr s) =
     (case minLength f of
        None \<Rightarrow> None
      | Some n \<Rightarrow>
          if num_truthy n \<and> js_lt (Fin (of_nat (length s))) n
          then Some (label f @ '' must be at least '' @ num_to_string P n @ '' characters'')
          else None)"
  by (simp add: fieldEntry_def fieldSchema_def optional_def z_string_def field_error_def
      split: option.splits)

lemma number_schema_minLength:
  "number_schema P (f\<lparr>minLength := x\<rparr>) = number_schema P f"
  by (simp add: number_schema_def cong: jsval.case_cong)

text \<open>
  C10: a \<open>minLength\<close> of 0 compiles to the same rule as an absent \<open>minLength\<close>: a \<open>tel\<close>
  field with \<open>minLength\<close> 0 enforces the default minimum length of 10, and a field of
  type \<open>text\<close> or of an unrecognised type with \<open>minLength\<close> 0 is a plain string rule
  with no length constraint, which accepts every string.
\<close>

theorem minLength_zero_like_absent:
  "fieldSchema P (f\<lparr>minLength := Some (Fin 0)\<rparr>) = fieldSchema P (f\<lparr>minLength := None\<rparr>)
   \<and> (field_type f = ''tel'' \<longrightarrow>
        field_error P (fieldEntry P (f\<lparr>minLength := Some (Fin 0)\<rparr>)) (JStr s) =
          (if length s < 10
           then Some (label f @ '' must be at least '' @ num_to_string P (Fin 10)
                        @ '' characters'')
           else None))
   \<and> (field_type f \<notin> {''email'', ''number'', ''date'', ''datetime-local'', ''tel''} \<longrightarrow>
        fieldSchema P (f\<lparr>minLength := Some (Fin 0)\<rparr>) = z_string
        \<and> field_error P (fieldEntry P (f\<lparr>minLength := Some (Fin 0)\<rparr>)) (JStr s) = None)"
proof (intro conjI impI)
  show "fieldSchema P (f\<lparr>minLength := Some (Fin 0)\<rparr>) = fieldSchema P (f\<lparr>minLength := None\<rparr>)"
    by (simp add: fieldSchema_def number_schema_minLength)
next
  assume "field_type f = ''tel''"
  then show "field_error P (fieldEntry P (f\<lparr>minLength := Some (Fin 0)\<rparr>)) (JStr s) =
          (if length s < 10
           then Some (label f @ '' must be at least '' @ num_to_string P (Fin 10)
                        @ '' characters'')
           else None)"
    by (simp add: tel_rule)
next
  assume t: "field_type f \<notin> {''email'', ''number'', ''date'', ''datetime-local'', ''tel''}"
  then show "fieldSchema P (f\<lparr>minLength := Some (Fin 0)\<rparr>) = z_string"
    by (simp add: fieldSchema_def)
  from t show "field_error P (fieldEntry P (f\<lparr>minLength := Some (Fin 0)\<rparr>)) (JStr s) = None"
    by (simp add: text_rule)
qed

theorem minLength_zero_like_absent_witness:
  "field_error example_platform (fieldEntry example_platform (phone_field\<lparr>minLength := Some (Fin 0)\<rparr>))
     (JStr ''12345'') = Some ''Phone must be at least 10 characters''
   \<and> field_error example_platform (fieldEntry example_platform (notes_field\<lparr>minLength := Some (Fin 0)\<rparr>))
     (JStr '''') = None"
  using minLength_zero_like_absent [of example_platform phone_field "''12345''"]
    minLength_zero_like_absent [of example_platform notes_field "''''"]
  by (simp add: phone_field_def notes_field_def example_platform_def)

lemma number_rule_invalid:
  "field_type f = ''number'' \<Longrightarrow> v \<noteq> JUndefined \<Longrightarrow> parsedType v \<noteq> ''number'' \<Longrightarrow>
   field_error P (fieldEntry P f) v = Some (label f @ '' must be a number'')"
  by (cases v; cases "field_min f"; cases "field_max f")
     (simp_all add: fieldEntry_def fieldSchema_def number_schema_def optional_def z_number_def
       field_error_def split: if_splits)

lemma number_rule_5_10:
  "field_type f = ''number'' \<Longrightarrow> field_min f = JNum (Fin 5) \<Longrightarrow> field_max f = JNum (Fin 10) \<Longrightarrow>
   field_error P (fieldEntry P f) (JNum (Fin x)) =
     (if x < 5 then Some (label f @ '' must be at least '' @ num_to_string P (Fin 5))
      else if 10 < x then Some (label f @ '' must be at most '' @ num_to_string P (Fin 10))
      else None)"
  by (simp add: fieldEntry_def fieldSchema_def number_schema_def optional_def z_number_def
       field_error_def)

text \<open>
  C7: for a \<open>number\<close> field, compiled under its name in a list with unique names, a
  value that is present and not a number (a string, a boolean, \<open>null\<close>, NaN) is rejected
  with the message \<open>label must be a number\<close>, which differs from both range messages
  whatever the bounds print as; with \<open>min\<close> 5 and \<open>max\<close> 10 the value 3 is rejected with
  the at-least message, 7 is accepted, and 12 is rejected with the at-most message.
\<close>

theorem number_field_messages:
  assumes "generateZodSchema P fs \<noteq> Inl TypeError"
    and "distinct (map name fs)" and "f \<in> set fs" and "name f \<noteq> ''__proto__''"
    and "field_type f = ''number''"
  shows "(data (name f) \<noteq> JUndefined \<and> parsedType (data (name f)) \<noteq> ''number'' \<longrightarrow>
            violation P fs data (name f) = Inr (Some (label f @ '' must be a number'')))
         \<and> label f @ '' must be a number'' \<noteq> label f @ '' must be at least '' @ lo
         \<and> label f @ '' must be a number'' \<noteq> label f @ '' must be at most '' @ hi
         \<and> (field_min f = JNum (Fin 5) \<and> field_max f = JNum (Fin 10) \<longrightarrow>
              (data (name f) = JNum (Fin 3) \<longrightarrow>
                 violation P fs data (name f)
                   = Inr (Some (label f @ '' must be at least '' @ num_to_string P (Fin 5))))
              \<and> (data (name f) = JNum (Fin 7) \<longrightarrow> violation P fs data (name f) = Inr None)
              \<and> (data (name f) = JNum (Fin 12) \<longrightarrow>
                 violation P fs data (name f)
                   = Inr (Some (label f @ '' must be at most '' @ num_to_string P (Fin 10)))))"
proof -
  have v: "violation P fs data (name f) = Inr (field_error P (fieldEntry P f) (data (name f)))"
    using assms(1,2,3,4) by (rule violation_field)
  show ?thesis
    using assms(5) by (simp add: v number_rule_invalid number_rule_5_10)
qed

theorem number_field_messages_witness:
  "violation example_platform [guests_field] (\<lambda>k. JStr ''seven'') ''guests''
     = Inr (Some ''Guests must be a number'')
   \<and> violation example_platform [guests_field] (\<lambda>k. JNum (Fin 3)) ''guests''
     = Inr (Some ''Guests must be at least 5'')
   \<and> violation example_platform [guests_field] (\<lambda>k. JNum (Fin 7)) ''guests'' = Inr None
   \<and> violation example_platform [guests_field] (\<lambda>k. JNum (Fin 12)) ''guests''
     = Inr (Some ''Guests must be at most 10'')"
  using number_field_messages [where fs = "[guests_field]" and f = guests_field
      and P = example_platform and data = "\<lambda>k. JStr ''seven''"]
    number_field_messages [where fs = "[guests_field]" and f = guests_field
      and P = example_platform and data = "\<lambda>k. JNum (Fin 3)"]
    number_field_messages [where fs = "[guests_field]" and f = guests_field
      and P = example_platform and data = "\<lambda>k. JNum (Fin 7)"]
    number_field_messages [where fs = "[guests_field]" and f = guests_field
      and P = example_platform and data = "\<lambda>k. JNum (Fin 12)"]
  by (simp add: generateZodSchema_def assign_def empty_object_def guests_field_def
      example_platform_def)

lemma required_absent:
  "required f \<Longrightarrow>
   field_error P (fieldEntry P f) JUndefined =
     Some (if field_type f = ''number'' then label f @ '' is required'' else ''Required'')"
  by (cases "field_min f"; cases "field_max f"; cases "minLength f")
     (simp_all add: fieldEntry_def fieldSchema_def number_schema_def z_number_def z_string_def
       refine_def field_error_def)

lemma optional_absent: "parse P (optional sch) JUndefined = (False, [])"
  by (simp add: optional_def)

lemma not_required_absent:
  "\<not> required f \<Longrightarrow> field_error P (fieldEntry P f) JUndefined = None"
  by (simp add: fieldEntry_def field_error_def optional_absent)

lemma empty_string_not_absent:
  "field_error P (fieldEntry P f) (JStr s) = field_error P (fieldSchema P f) (JStr s)"
  by (simp add: fieldEntry_def field_error_def optional_def)

lemma date_rule:
  "field_type f = ''date'' \<or> field_type f = ''datetime-local'' \<Longrightarrow>
   field_error P (fieldEntry P f) (JStr s) =
     (if date_ok P s then None else Some (label f @ '' must be a valid date''))"
  by (auto simp: fieldEntry_def fieldSchema_def optional_def z_string_def refine_def
      field_error_def)

text \<open>
  C4, as the claim states it, fails on the code. A required text field with no
  \<open>minLength\<close> accepts the empty string; a \<open>tel\<close> field that is not required rejects the
  empty string; and an absent value of the required e-mail field of the default list is
  reported as \<open>Required\<close>, not as \<open>Email is required\<close>.
\<close>

theorem empty_value_counterexample:
  "required notes_field
   \<and> violation example_platform [notes_field] (\<lambda>k. JStr '''') ''notes'' = Inr None
   \<and> \<not> required phone_field
   \<and> violation example_platform [phone_field] (\<lambda>k. JStr '''') ''phone''
       = Inr (Some ''Phone must be at least 10 characters'')
   \<and> violation example_platform default_fields (\<lambda>k. JUndefined) ''email''
       = Inr (Some ''Required'')"
  by (simp add: violation_def generateZodSchema_def assign_def empty_object_def
      validate_def field_error_def fieldEntry_def fieldSchema_def optional_def z_string_def
      notes_field_def phone_field_def default_fields_def example_platform_def)

text \<open>
  C4, amended: for a field compiled under its name in a list with unique names, an
  absent value (\<open>undefined\<close>) yields a violation when the field is required, with the
  message \<open>label is required\<close> when it is a \<open>number\<close> field, and yields no violation when
  the field is not required, whatever its type: \<open>optional\<close> accepts \<open>undefined\<close> whatever
  the rule it wraps. An empty string is not an absent value: required or not, it is
  checked by the rule of the field's type.
\<close>

theorem absent_value_rule:
  assumes "generateZodSchema P fs \<noteq> Inl TypeError"
    and "distinct (map name fs)" and "f \<in> set fs" and "name f \<noteq> ''__proto__''"
  shows "(data (name f) = JUndefined \<longrightarrow>
            (required f \<longrightarrow> (\<exists>msg. violation P fs data (name f) = Inr (Some msg)))
            \<and> (required f \<and> field_type f = ''number'' \<longrightarrow>
                 violation P fs data (name f) = Inr (Some (label f @ '' is required'')))
            \<and> (\<not> required f \<longrightarrow> violation P fs data (name f) = Inr None))
         \<and> parse P (optional sch) JUndefined = (False, [])
         \<and> (data (name f) = JStr [] \<longrightarrow>
              violation P fs data (name f) = Inr (field_error P (fieldSchema P f) (JStr [])))"
proof -
  have v: "violation P fs data (name f) = Inr (field_error P (fieldEntry P f) (data (name f)))"
    using assms by (rule violation_field)
  show ?thesis
    by (simp add: v required_absent not_required_absent optional_absent
        empty_string_not_absent)
qed

theorem absent_value_rule_witness:
  "violation example_platform [guests_field] (\<lambda>k. JUndefined) ''guests''
     = Inr (Some ''Guests is required'')
   \<and> violation example_platform [phone_field] (\<lambda>k. JUndefined) ''phone'' = Inr None
   \<and> violation example_platform [phone_field] (\<lambda>k. JStr '''') ''phone''
     = Inr (Some ''Phone must be at least 10 characters'')"
  using absent_value_rule [where fs = "[guests_field]" and f = guests_field
      and P = example_platform and data = "\<lambda>k. JUndefined"]
    absent_value_rule [where fs = "[phone_field]" and f = phone_field
      and P = example_platform and data = "\<lambda>k. JUndefined"]
    absent_value_rule [where fs = "[phone_field]" and f = phone_field
      and P = example_platform and data = "\<lambda>k. JStr ''''"]
  by (simp add: generateZodSchema_def assign_def empty_object_def guests_field_def
      phone_field_def example_platform_def fieldSchema_def z_string_def field_error_def)

text \<open>
  C6, as the claim states it, fails on the code: a field of type \<open>datetime\<close> falls to the
  default case of the switch and is free text, so a string that is not a date is
  accepted.
\<close>

theorem datetime_counterexample:
  "field_type when_field = ''datetime''
   \<and> \<not> date_ok example_platform ''not a date''
   \<and> violation example_platform [when_field] (\<lambda>k. JStr ''not a date'') ''when'' = Inr None"
  by (simp add: violation_def generateZodSchema_def assign_def empty_object_def
      validate_def field_error_def fieldEntry_def fieldSchema_def z_string_def
      when_field_def example_platform_def)

text \<open>
  C6, amended: for a field of type \<open>date\<close> or \<open>datetime-local\<close>, compiled under its name in
  a list with unique names, the rule accepts a string value exactly when
  \<open>new Date(value)\<close> is a valid date, and rejects every other string with the message
  \<open>label must be a valid date\<close>.
\<close>

theorem date_fields_checked:
  assumes "generateZodSchema P fs \<noteq> Inl TypeError"
    and "distinct (map name fs)" and "f \<in> set fs" and "name f \<noteq> ''__proto__''"
    and "field_type f = ''date'' \<or> field_type f = ''datetime-local''"
    and "data (name f) = JStr s"
  shows "violation P fs data (name f) =
           Inr (if date_ok P s then None else Some (label f @ '' must be a valid date''))"
proof -
  have "violation P fs data (name f) = Inr (field_error P (fieldEntry P f) (JStr s))"
    using violation_field [OF assms(1,2,3,4)] assms(6) by simp
  then show ?thesis
    using assms(5) by (simp only: date_rule)
qed

theorem date_fields_checked_witness:
  "violation example_platform default_fields (\<lambda>k. JStr ''2025-03-14T19:30'') ''date''
     = Inr None
   \<and> violation example_platform default_fields (\<lambda>k. JStr ''not a date'') ''date''
     = Inr (Some ''Date & Time must be a valid date'')"
  using date_fields_checked [where fs = default_fields and f = "default_fields ! 2"
      and P = example_platform and data = "\<lambda>k. JStr ''2025-03-14T19:30''"
      and s = "''2025-03-14T19:30''"]
    date_fields_checked [where fs = default_fields and f = "default_fields ! 2"
      and P = example_platform and data = "\<lambda>k. JStr ''not a date''"
      and s = "''not a date''"]
  by (simp add: generateZodSchema_def assign_def empty_object_def default_fields_def
      example_platform_def)

lemma onSubmit_rejected:
  "createBooking W data = Rejected e \<Longrightarrow>
   onSubmit W data s =
     ((onSubmit_begin s)\<lparr>error := Some (message_or e ''Failed to create booking. Please try again.''),
         isSubmitting := False\<rparr>,
      [CreateBooking data])"
  by (simp add: onSubmit_def Let_def)

lemma onSubmit_skipped:
  "createBooking W data = Resolved bid \<Longrightarrow> \<not> truthy (data ''email'') \<Longrightarrow>
   onSubmit W data s =
     ((onSubmit_begin s)\<lparr>bookingId := Some bid, isSubmitting := False\<rparr>, [CreateBooking data])"
  by (simp add: onSubmit_def Let_def)

lemma onSubmit_sent:
  "createBooking W data = Resolved bid \<Longrightarrow> truthy (data ''email'') \<Longrightarrow>
   sendBookingEmail W data bid = Resolved u \<Longrightarrow>
   onSubmit W data s =
     ((onSubmit_begin s)\<lparr>emailStatus := Some ''Confirmation email sent!'',
         bookingId := Some bid, isSubmitting := False\<rparr>,
      [CreateBooking data, SendBookingEmail data bid])"
  by (simp add: onSubmit_def Let_def)

lemma onSubmit_delivery_failed:
  "createBooking W data = Resolved bid \<Longrightarrow> truthy (data ''email'') \<Longrightarrow>
   sendBookingEmail W data bid = Rejected e \<Longrightarrow>
   onSubmit W data s =
     ((onSubmit_begin s)\<lparr>emailStatus := Some ''Booking confirmed but email delivery failed.'',
         bookingId := Some bid, isSubmitting := False\<rparr>,
      [CreateBooking data, SendBookingEmail data bid])"
  by (simp add: onSubmit_def Let_def)

lemma onSubmit_cases:
  obtains (rejected) e where "createBooking W data = Rejected e"
  | (skipped) bid where "createBooking W data = Resolved bid" and "\<not> truthy (data ''email'')"
  | (sent) bid u where "createBooking W data = Resolved bid" and "truthy (data ''email'')"
      and "sendBookingEmail W data bid = Resolved u"
  | (delivery_failed) bid e where "createBooking W data = Resolved bid"
      and "truthy (data ''email'')" and "sendBookingEmail W data bid = Rejected e"
proof (cases "createBooking W data")
  case (Resolved bid)
  then show ?thesis
    by (cases "truthy (data ''email'')"; cases "sendBookingEmail W data bid")
       (auto intro: that)
next
  case (Rejected e)
  then show ?thesis by (rule that(1))
qed

text \<open>
  C1: when \<open>createBooking\<close> resolves with identifier \<open>X\<close>, the record's \<open>email\<close> is truthy
  (as every non-empty string is) and \<open>sendBookingEmail\<close> rejects, \<open>onSubmit\<close> ends with
  \<open>bookingId = X\<close>, the delivery-failed status, no error and \<open>isSubmitting\<close> cleared:
  the session is confirmed, not failed.
\<close>

theorem notifier_failure_keeps_booking:
  assumes "createBooking W data = Resolved X"
    and "truthy (data ''email'')"
    and "sendBookingEmail W data X = Rejected e"
  shows "bookingId (fst (onSubmit W data s)) = Some X
         \<and> emailStatus (fst (onSubmit W data s))
             = Some ''Booking confirmed but email delivery failed.''
         \<and> error (fst (onSubmit W data s)) = None
         \<and> \<not> isSubmitting (fst (onSubmit W data s))"
  using assms by (simp add: onSubmit_delivery_failed onSubmit_begin_def)

theorem notifier_failure_keeps_booking_witness:
  "truthy (example_record ''email'')
   \<and> bookingId (fst (onSubmit failing_notifier example_record ready_state)) = Some ''B123''
   \<and> emailStatus (fst (onSubmit failing_notifier example_record ready_state))
       = Some ''Booking confirmed but email delivery failed.''
   \<and> error (fst (onSubmit failing_notifier example_record ready_state)) = None"
  using notifier_failure_keeps_booking [where W = failing_notifier and data = example_record
      and X = "''B123''" and e = "JsError (Some ''SMTP timeout'')" and s = ready_state]
  by (simp add: failing_notifier_def example_record_def)

text \<open>
  C3: when \<open>createBooking\<close> rejects, \<open>onSubmit\<close> ends with \<open>error\<close> set: to the
  rejection's message when it has a non-empty one, to the generic text
  \<open>Failed to create booking. Please try again.\<close> when the message is missing or empty.
  It leaves \<open>bookingId\<close> as it was, clears \<open>isSubmitting\<close> and has called \<open>createBooking\<close>
  only. In every run the calls are \<open>createBooking\<close> alone, or \<open>createBooking\<close> followed
  by one \<open>sendBookingEmail\<close> that carries the identifier \<open>createBooking\<close> resolved with.
\<close>

theorem creation_failure_never_notifies:
  "(createBooking W data = Rejected (JsError (Some m)) \<and> m \<noteq> [] \<longrightarrow>
      error (fst (onSubmit W data s)) = Some m)
   \<and> (createBooking W data = Rejected (JsError None)
        \<or> createBooking W data = Rejected (JsError (Some [])) \<longrightarrow>
      error (fst (onSubmit W data s)) = Some ''Failed to create booking. Please try again.'')
   \<and> (createBooking W data = Rejected e \<longrightarrow>
      error (fst (onSubmit W data s)) \<noteq> None
      \<and> bookingId (fst (onSubmit W data s)) = bookingId s
      \<and> \<not> isSubmitting (fst (onSubmit W data s))
      \<and> snd (onSubmit W data s) = [CreateBooking data])
   \<and> (snd (onSubmit W data s) = [CreateBooking data]
       \<or> (\<exists>bid. createBooking W data = Resolved bid
             \<and> snd (onSubmit W data s) = [CreateBooking data, SendBookingEmail data bid]))"
proof (cases W data rule: onSubmit_cases)
  case (rejected e')
  then show ?thesis by (auto simp: onSubmit_rejected onSubmit_begin_def)
next
  case (skipped bid)
  then show ?thesis by (simp add: onSubmit_skipped)
next
  case (sent bid u)
  then show ?thesis by (simp add: onSubmit_sent)
next
  case (delivery_failed bid e')
  then show ?thesis by (simp add: onSubmit_delivery_failed)
qed

theorem creation_failure_never_notifies_witness:
  "error (fst (onSubmit failing_store example_record ready_state)) = Some ''permission-denied''
   \<and> bookingId (fst (onSubmit failing_store example_record ready_state)) = None
   \<and> snd (onSubmit failing_store example_record ready_state) = [CreateBooking example_record]
   \<and> error (fst (onSubmit silent_store example_record ready_state))
       = Some ''Failed to create booking. Please try again.''
   \<and> snd (onSubmit silent_store example_record ready_state) = [CreateBooking example_record]"
  using creation_failure_never_notifies [where W = failing_store and data = example_record
      and m = "''permission-denied''" and e = "JsError (Some ''permission-denied'')"
      and s = ready_state]
    creation_failure_never_notifies [where W = silent_store and data = example_record
      and e = "JsError None" and s = ready_state]
  by (simp add: failing_store_def silent_store_def ready_state_def loadFormFields_def
      initial_state_def)

text \<open>
  C5, as the claim states it, fails on the code: \<open>onSubmit\<close> called in a state whose
  \<open>isSubmitting\<close> is set calls \<open>createBooking\<close> again.
\<close>

theorem reentrant_submit_counterexample:
  "isSubmitting (onSubmit_begin ready_state)
   \<and> snd (onSubmit failing_notifier example_record (onSubmit_begin ready_state))
       = [CreateBooking example_record, SendBookingEmail example_record ''B123'']"
  by (simp add: onSubmit_def Let_def onSubmit_begin_def failing_notifier_def
      example_record_def)

text \<open>
  C5, amended: the only guard against a repeated submit is the submit button, which is
  disabled while \<open>isSubmitting\<close> is set, as it is from the first statements of
  \<open>onSubmit\<close> until the handler ends. \<open>onSubmit\<close> itself does not read \<open>isSubmitting\<close>:
  called while a submission is in flight it does what it does otherwise, and its
  first call is \<open>createBooking\<close>.
\<close>

theorem submit_guard_is_the_button:
  "submit_disabled s = isSubmitting s
   \<and> submit_disabled (onSubmit_begin s)
   \<and> \<not> submit_disabled (fst (onSubmit W data s))
   \<and> onSubmit W data (s\<lparr>isSubmitting := True\<rparr>) = onSubmit W data s
   \<and> take 1 (snd (onSubmit W data s)) = [CreateBooking data]"
proof -
  have "onSubmit_begin (s\<lparr>isSubmitting := True\<rparr>) = onSubmit_begin s"
    by (simp add: onSubmit_begin_def)
  then have same: "onSubmit W data (s\<lparr>isSubmitting := True\<rparr>) = onSubmit W data s"
    by (simp add: onSubmit_def)
  have rest: "\<not> submit_disabled (fst (onSubmit W data s))
      \<and> take 1 (snd (onSubmit W data s)) = [CreateBooking data]"
  proof (cases W data rule: onSubmit_cases)
    case (rejected e)
    then show ?thesis by (simp add: onSubmit_rejected submit_disabled_def)
  next
    case (skipped bid)
    then show ?thesis by (simp add: onSubmit_skipped submit_disabled_def)
  next
    case (sent bid u)
    then show ?thesis by (simp add: onSubmit_sent submit_disabled_def)
  next
    case (delivery_failed bid e)
    then show ?thesis by (simp add: onSubmit_delivery_failed submit_disabled_def)
  qed
  show ?thesis
    using same rest by (simp add: submit_disabled_def onSubmit_begin_def)
qed

text \<open>
  C2, as the claim states it, fails on the code in one detail: the third field of the
  default list has type \<open>datetime-local\<close>, not \<open>datetime\<close>.
\<close>

theorem default_fields_counterexample:
  "field_type (formFields (loadFormFields (Resolved None) initial_state) ! 2) \<noteq> ''datetime''"
  by (simp add: loadFormFields_def default_fields_def)

text \<open>
  C2, amended: when \<open>getFormFields\<close> resolves with no settings, or with settings that
  have no \<open>fields\<close>, \<open>loadFormFields\<close> sets \<open>formFields\<close> to the default list of three
  fields (\<open>fullName\<close>: text, required, \<open>minLength\<close> 2; \<open>email\<close>: email, required; \<open>date\<close>:
  datetime-local, required), clears \<open>isLoading\<close> and sets no error; when it rejects,
  \<open>loadFormFields\<close> sets the error \<open>Failed to load form. Please try again later.\<close>,
  clears \<open>isLoading\<close> and leaves \<open>formFields\<close> as it was, empty from the initial
  state, so the default list is not substituted.
\<close>

theorem absence_yields_defaults_error_fails:
  "loadFormFields (Resolved None) s = s\<lparr>formFields := default_fields, isLoading := False\<rparr>
   \<and> loadFormFields (Resolved (Some (Settings None))) s
       = s\<lparr>formFields := default_fields, isLoading := False\<rparr>
   \<and> error (loadFormFields (Resolved None) initial_state) = None
   \<and> map (\<lambda>f. (name f, field_type f, required f, minLength f)) default_fields
       = [(''fullName'', ''text'', True, Some (Fin 2)),
          (''email'', ''email'', True, None),
          (''date'', ''datetime-local'', True, None)]
   \<and> loadFormFields (Rejected e) s
       = s\<lparr>error := Some ''Failed to load form. Please try again later.'', isLoading := False\<rparr>
   \<and> formFields (loadFormFields (Rejected e) initial_state) = []
   \<and> default_fields \<noteq> []"
  by (simp add: loadFormFields_def default_fields_def initial_state_def)

end
